theory Spec2Isabelle
  imports Complex_Main
begin

section \<open>Conventions of the embedding\<close>

text \<open>
  The module \<^verbatim>\<open>dsharp_opac.py\<close> computes with numpy arrays of double precision
  floats. The embedding reads a float as a \<^typ>\<open>real\<close>, a complex float as a
  \<^typ>\<open>complex\<close>, a Python integer as an \<^typ>\<open>int\<close> and a one-dimensional array as a
  list; a two-dimensional array is a list of rows. Rounding, overflow and underflow of
  floats are not modelled, and the cast of a float to an integer is exact truncation, as
  numpy's is within the 64-bit range. Where a float operation of the source would
  produce \<^verbatim>\<open>inf\<close> or \<^verbatim>\<open>nan\<close> in a value that a theorem below speaks about (a division
  by zero), the model says so with \<open>None\<close>; elsewhere the theorems are stated for the
  grids of the data model (positive wavelengths, non-negative sizes), on which no such
  operation occurs. Every exception the modelled code raises is a value of the type
  \<open>error\<close>. Numerical library routines (\<^verbatim>\<open>mpmath.findroot\<close>,
  \<^verbatim>\<open>scipy.optimize.curve_fit\<close>, \<^verbatim>\<open>scipy.optimize.fsolve\<close>) and the Mie solver handed to
  \<^verbatim>\<open>get_mie_coefficients\<close> are parameters of the functions that call them; printing and
  the progress bar are left out.
\<close>

datatype error =
    NameError_outside_data_range   \<comment> \<open>\<^verbatim>\<open>NameError('...wavelength ... outside data-range ...')\<close>\<close>
  | NameError_unknown_mixing_rule  \<comment> \<open>\<^verbatim>\<open>NameError('Unknown mixing rule: ...')\<close>\<close>
  | ValueError
  | IndexError
  | TypeError
  | AssertionError
  | UnboundLocalError
  | ZeroDivisionError
  | RootFinderError                \<comment> \<open>whatever \<^verbatim>\<open>mpmath.findroot\<close> raises\<close>
  | CurveFitError                  \<comment> \<open>whatever \<^verbatim>\<open>scipy.optimize.curve_fit\<close> raises\<close>
  | ShapeOutsideModel              \<comment> \<open>array shapes other than the documented ones, which the model does not cover\<close>

definition bindE :: "error + 'a \<Rightarrow> ('a \<Rightarrow> error + 'b) \<Rightarrow> error + 'b" where
  "bindE m f = (case m of Inl e \<Rightarrow> Inl e | Inr x \<Rightarrow> f x)"

lemma bindE_Inr [simp]: "bindE (Inr x) f = f x"
  by (simp add: bindE_def)

lemma bindE_Inl [simp]: "bindE (Inl e) f = Inl e"
  by (simp add: bindE_def)

section \<open>numpy helpers\<close>

text \<open>
  \<^verbatim>\<open>np.interp(x, xp, fp)\<close> for a scalar \<open>x\<close> and increasing sample points \<open>xp\<close>: the
  value of the piecewise linear interpolant, \<open>fp[0]\<close> to the left of the samples and
  \<open>fp[-1]\<close> to the right. numpy finds the interval \<open>xp[j] \<le> x < xp[j+1]\<close> by bisection;
  on increasing samples the scan below finds the same \<open>j\<close>. An empty \<open>xp\<close> and arrays of
  different lengths raise \<^verbatim>\<open>ValueError\<close>.
\<close>

fun interp_scan :: "real \<Rightarrow> real list \<Rightarrow> real list \<Rightarrow> real" where
  "interp_scan x (x0 # x1 # xs) (y0 # y1 # ys) =
     (if x < x1
      then (if x0 = x then y0 else (y1 - y0) / (x1 - x0) * (x - x0) + y0)
      else interp_scan x (x1 # xs) (y1 # ys))"
| "interp_scan x [x0] (y0 # ys) = y0"
| "interp_scan x xp fp = 0"

definition interp :: "real \<Rightarrow> real list \<Rightarrow> real list \<Rightarrow> error + real" where
  "interp x xp fp =
     (if xp = [] then Inl ValueError
      else if length fp \<noteq> length xp then Inl ValueError
      else if x < hd xp then Inr (hd fp)
      else if last xp < x then Inr (last fp)
      else Inr (interp_scan x xp fp))"

text \<open>\<^verbatim>\<open>np.log10\<close> and \<^verbatim>\<open>10.**\<close> applied to an array.\<close>

definition log10 :: "real \<Rightarrow> real" where
  "log10 x = log 10 x"

definition pow10 :: "real \<Rightarrow> real" where
  "pow10 x = 10 powr x"

section \<open>\<^verbatim>\<open>class diel_const\<close>\<close>

record diel_const =
  f_l :: "real list"            \<comment> \<open>\<^verbatim>\<open>_l\<close>\<close>
  f_n :: "real list"            \<comment> \<open>\<^verbatim>\<open>_n\<close>\<close>
  f_k :: "real list"            \<comment> \<open>\<^verbatim>\<open>_k\<close>\<close>
  f_ll :: "real list"           \<comment> \<open>\<^verbatim>\<open>_ll\<close>\<close>
  f_ln :: "real list"           \<comment> \<open>\<^verbatim>\<open>_ln\<close>\<close>
  f_lk :: "real list"           \<comment> \<open>\<^verbatim>\<open>_lk\<close>\<close>
  f_lmin :: real                \<comment> \<open>\<^verbatim>\<open>_lmin\<close>\<close>
  f_lmax :: real                \<comment> \<open>\<^verbatim>\<open>_lmax\<close>\<close>
  extrapol :: bool
  has_negative_n :: bool        \<comment> \<open>\<^verbatim>\<open>_has_negative_n\<close>\<close>
  material_str :: "string option"

text \<open>
  \<^verbatim>\<open>diel_const.__init__(lam, n, k)\<close> with arrays; \<open>lam[0]\<close> of an empty array raises
  \<^verbatim>\<open>IndexError\<close>. The class attributes \<open>extrapol = False\<close> and \<open>material_str = None\<close>
  are the defaults of a fresh object.
\<close>

definition diel_const_init :: "real list \<Rightarrow> real list \<Rightarrow> real list \<Rightarrow> error + diel_const" where
  "diel_const_init lam n k =
     (if lam = [] then Inl IndexError
      else Inr \<lparr> f_l = lam, f_n = n, f_k = k,
                 f_ll = map log10 lam, f_ln = map log10 n, f_lk = map log10 k,
                 f_lmin = hd lam, f_lmax = last lam,
                 extrapol = False,
                 has_negative_n = (\<exists>x \<in> set n. x \<le> 0),
                 material_str = None \<rparr>)"

text \<open>
  The scalar branch of \<^verbatim>\<open>__init__\<close>: a single wavelength becomes the two-point table
  \<open>[lam - h, lam + h]\<close> with \<open>h = 1e-10 * lam\<close> and constant \<open>n\<close>, \<open>k\<close>.
\<close>

definition diel_const_init_scalar :: "real \<Rightarrow> real \<Rightarrow> real \<Rightarrow> error + diel_const" where
  "diel_const_init_scalar lam n k =
     (let h = 1 / 10 ^ 10 * lam
      in diel_const_init [lam - h, lam + h] [1 * n, 1 * n] [1 * k, 1 * k])"

text \<open>
  \<^verbatim>\<open>diel_const.nk(l)\<close> for a scalar wavelength \<open>l\<close> (the form in which
  \<^verbatim>\<open>diel_mixed.nk\<close> and \<^verbatim>\<open>get_mie_coefficients\<close> call it).
\<close>

definition nk :: "diel_const \<Rightarrow> real \<Rightarrow> error + (real \<times> real)" where
  "nk d l =
     (if l < f_lmin d \<or> f_lmax d < l then Inl NameError_outside_data_range
      else
        bindE (if has_negative_n d
               then bindE (interp l (f_l d) (f_n d)) (\<lambda>n. Inr (\<not> n < 0))
               else Inr True)
          (\<lambda>log_interp.
             if log_interp
             then bindE (interp (log10 l) (f_ll d) (f_ln d)) (\<lambda>a.
                  bindE (interp (log10 l) (f_ll d) (f_lk d)) (\<lambda>b.
                  Inr (pow10 a, pow10 b)))
             else bindE (interp l (f_l d) (f_n d)) (\<lambda>a.
                  bindE (interp (log10 l) (f_ll d) (f_lk d)) (\<lambda>b.
                  Inr (a, pow10 b)))))"

section \<open>Properties of \<^verbatim>\<open>diel_const.nk\<close>\<close>


lemma diel_const_init_bounds:
  assumes "diel_const_init lam n k = Inr d"
  shows "lam \<noteq> [] \<and> f_lmin d = hd lam \<and> f_lmax d = last lam"
  using assms by (auto simp: diel_const_init_def split: if_splits)

text \<open>
  A table built by \<^verbatim>\<open>__init__\<close> stores its first and last wavelength as bounds, so a
  query below every tabulated wavelength, or above every one, is rejected whatever the
  order of the table.
\<close>

lemma nk_init_outside_table:
  assumes "diel_const_init lam n k = Inr d"
    and "(\<forall>x \<in> set lam. l < x) \<or> (\<forall>x \<in> set lam. x < l)"
  shows "nk d l = Inl NameError_outside_data_range"
proof -
  from diel_const_init_bounds [OF assms(1)]
  have ne: "lam \<noteq> []" and lo: "f_lmin d = hd lam" and hi: "f_lmax d = last lam"
    by simp_all
  from ne have "hd lam \<in> set lam" "last lam \<in> set lam" by simp_all
  with assms(2) lo hi have "l < f_lmin d \<or> f_lmax d < l" by auto
  then show ?thesis by (simp add: nk_def)
qed

text \<open>
  C2. For every spectrum object and every query wavelength strictly below the stored
  minimum \<open>_lmin\<close> or strictly above the stored maximum \<open>_lmax\<close>, \<^verbatim>\<open>diel_const.nk\<close>
  raises the out-of-range error (a \<^verbatim>\<open>NameError\<close> in the source); it returns no value,
  clamped or otherwise.
\<close>

theorem nk_out_of_range_raises:
  assumes "l < f_lmin d \<or> f_lmax d < l"
  shows "nk d l = Inl NameError_outside_data_range"
  using assms by (simp add: nk_def)

theorem nk_out_of_range_raises_witness:
  "(case diel_const_init [1, 2] [3, 4] [5, 6] of
      Inl e \<Rightarrow> False
    | Inr d \<Rightarrow> f_lmax d < 3 \<and> nk d 3 = Inl NameError_outside_data_range
               \<and> 1 / 2 < f_lmin d \<and> nk d (1 / 2) = Inl NameError_outside_data_range)"
proof -
  obtain d where d: "diel_const_init [1, 2] [3, 4] [5, 6] = Inr d"
    by (simp add: diel_const_init_def)
  then have b: "f_lmin d = 1" "f_lmax d = 2"
    by (auto simp: diel_const_init_def)
  have "nk d 3 = Inl NameError_outside_data_range"
    using nk_out_of_range_raises [of 3 d] b by simp
  moreover have "nk d (1 / 2) = Inl NameError_outside_data_range"
    using nk_out_of_range_raises [of "1 / 2" d] b by simp
  ultimately show ?thesis using d b by simp
qed



section \<open>Size distributions\<close>

text \<open>
  \<^verbatim>\<open>np.trapz(y, x=a)\<close> on arrays of equal length: the sum of
  \<open>(a[i+1] - a[i]) * (y[i+1] + y[i]) / 2\<close>.
\<close>

fun trapz :: "real list \<Rightarrow> real list \<Rightarrow> real" where
  "trapz (y0 # y1 # ys) (x0 # x1 # xs) =
     (x1 - x0) * (y1 + y0) / 2 + trapz (y1 # ys) (x1 # xs)"
| "trapz ys xs = 0"

text \<open>The elementwise product of two arrays of equal length.\<close>

definition mul_arr :: "real list \<Rightarrow> real list \<Rightarrow> real list" where
  "mul_arr xs ys = map2 (*) xs ys"

text \<open>\<^verbatim>\<open>m = 4. * np.pi / 3. * rho_s * a**3\<close>\<close>

definition grain_mass :: "real \<Rightarrow> real list \<Rightarrow> real list" where
  "grain_mass rho_s a = map (\<lambda>x. 4 * pi / 3 * rho_s * x ^ 3) a"

text \<open>
  \<^verbatim>\<open>dist = dist / np.trapz(dist * m, x=a)\<close>. When the integral is zero every entry of
  the quotient is \<^verbatim>\<open>inf\<close> or \<^verbatim>\<open>nan\<close> (numpy warns and does not raise): the model
  returns \<open>None\<close> for such an array.
\<close>

definition normalize_dist :: "real list \<Rightarrow> real list \<Rightarrow> real list \<Rightarrow> real list option" where
  "normalize_dist dist_a m a =
     (let T = trapz (mul_arr dist_a m) a
      in if T = 0 then None else Some (map (\<lambda>d. d / T) dist_a))"

text \<open>
  \<^verbatim>\<open>dist = a**-q * (a <= a_max)\<close>, on a grid of positive sizes, where the float power is
  \<open>powr\<close>.
\<close>

definition powerlaw_N_of_a :: "real list \<Rightarrow> real \<Rightarrow> real \<Rightarrow> real \<Rightarrow> real list option" where
  "powerlaw_N_of_a a a_max q rho_s =
     (let m = grain_mass rho_s a;
          dist_a = map (\<lambda>x. x powr (- q) * (if x \<le> a_max then 1 else 0)) a
      in normalize_dist dist_a m a)"

text \<open>
  \<^verbatim>\<open>dist = np.exp(-(a - a_mean)**2 / (2 * sigma_a**2))\<close>. With \<open>sigma_a = 0\<close> the
  exponent is \<^verbatim>\<open>-inf\<close> or \<^verbatim>\<open>nan\<close>, every entry of \<open>dist\<close> is \<open>0\<close> or \<^verbatim>\<open>nan\<close>,
  and so is the integral: the normalised array has no finite entry.
\<close>

definition gaussian_N_of_a :: "real list \<Rightarrow> real \<Rightarrow> real \<Rightarrow> real \<Rightarrow> real list option" where
  "gaussian_N_of_a a a_mean sigma_a rho_s =
     (if sigma_a = 0 then None
      else let m = grain_mass rho_s a;
               dist_a = map (\<lambda>x. exp (- ((x - a_mean) ^ 2) / (2 * sigma_a ^ 2))) a
           in normalize_dist dist_a m a)"

lemma trapz_scale: "trapz (map (\<lambda>y. c * y) ys) xs = c * trapz ys xs"
  by (induction ys xs rule: trapz.induct) (simp_all add: algebra_simps)

lemma trapz_map_fun:
  "trapz (map f (x0 # x1 # xs)) (x0 # x1 # xs) =
     (x1 - x0) * (f x1 + f x0) / 2 + trapz (map f (x1 # xs)) (x1 # xs)"
  by simp

lemma trapz_nonneg:
  "sorted_wrt (<) xs \<Longrightarrow> \<forall>x \<in> set xs. 0 \<le> f x \<Longrightarrow> 0 \<le> trapz (map f xs) xs"
proof (induction xs rule: induct_list012)
  case (3 x0 x1 xs)
  then have "0 \<le> trapz (map f (x1 # xs)) (x1 # xs)" by simp
  moreover have "0 \<le> (x1 - x0) * (f x1 + f x0) / 2" using 3 by simp
  ultimately show ?case by simp
qed simp_all

lemma trapz_pos:
  assumes "sorted_wrt (<) xs" "2 \<le> length xs" "\<forall>x \<in> set xs. 0 \<le> f x" "0 < f (hd xs)"
  shows "0 < trapz (map f xs) xs"
proof -
  obtain x0 x1 r where xs: "xs = x0 # x1 # r"
    using assms(2) by (cases xs; cases "tl xs") auto
  have "0 \<le> trapz (map f (x1 # r)) (x1 # r)"
    using assms(1,3) unfolding xs by (intro trapz_nonneg) auto
  moreover have "0 < (x1 - x0) * (f x1 + f x0) / 2"
  proof -
    have "0 < x1 - x0" using assms(1) xs by simp
    moreover have "0 < f x1 + f x0" using assms(3,4) xs by (simp add: add_nonneg_pos)
    ultimately show ?thesis by simp
  qed
  ultimately show ?thesis unfolding xs by simp
qed

lemma mul_arr_map: "mul_arr (map f a) (map g a) = map (\<lambda>x. f x * g x) a"
  by (induction a) (simp_all add: mul_arr_def)

lemma mul_arr_scale_left:
  "mul_arr (map (\<lambda>d. d / T) ds) m = map (\<lambda>y. (1 / T) * y) (mul_arr ds m)"
proof (induction ds arbitrary: m)
  case Nil
  show ?case by (simp add: mul_arr_def)
next
  case (Cons d ds)
  show ?case
  proof (cases m)
    case Nil
    then show ?thesis by (simp add: mul_arr_def)
  next
    case (Cons y ys)
    with Cons.IH [of ys] show ?thesis by (simp add: mul_arr_def)
  qed
qed

lemma normalize_dist_unit:
  assumes "trapz (mul_arr dist_a m) a \<noteq> 0"
  shows "\<exists>N. normalize_dist dist_a m a = Some N \<and> trapz (mul_arr N m) a = 1"
proof -
  let ?T = "trapz (mul_arr dist_a m) a"
  have "normalize_dist dist_a m a = Some (map (\<lambda>d. d / ?T) dist_a)"
    using assms by (simp add: normalize_dist_def)
  moreover have "trapz (mul_arr (map (\<lambda>d. d / ?T) dist_a) m) a = 1"
    unfolding mul_arr_scale_left trapz_scale using assms by simp
  ultimately show ?thesis by blast
qed

lemma mass_integral_nonzero:
  assumes "sorted_wrt (<) a" "2 \<le> length a" "\<forall>x \<in> set a. 0 < x" "rho_s \<noteq> 0"
    and "\<forall>x \<in> set a. 0 \<le> w x" "0 < w (hd a)"
  shows "trapz (mul_arr (map w a) (grain_mass rho_s a)) a \<noteq> 0"
proof -
  let ?g = "\<lambda>x. w x * (4 * pi / 3 * x ^ 3)"
  have eq: "mul_arr (map w a) (grain_mass rho_s a) = map (\<lambda>y. rho_s * y) (map ?g a)"
    by (simp add: grain_mass_def mul_arr_map algebra_simps)
  have ne: "a \<noteq> []" using assms(2) by auto
  have "\<forall>x \<in> set a. 0 \<le> ?g x"
    using assms(3,5) by (auto intro!: mult_nonneg_nonneg)
  moreover have "0 < ?g (hd a)"
    using assms(3,6) ne by (auto intro!: mult_pos_pos)
  ultimately have "0 < trapz (map ?g a) a"
    using trapz_pos [OF assms(1,2), of ?g] by blast
  then show ?thesis
    unfolding eq trapz_scale using assms(4) by simp
qed

text \<open>
  C4 (amended). For every strictly increasing grid of positive sizes with at least two
  points, every density \<open>rho_s \<noteq> 0\<close>, every cut-off \<open>a_max\<close> that is not below the
  smallest grid size and every width \<open>sigma_a \<noteq> 0\<close>, both \<^verbatim>\<open>powerlaw_N_of_a\<close> and
  \<^verbatim>\<open>gaussian_N_of_a\<close> return a distribution \<open>N\<close> with
  \<open>trapz(N * m, a) = 1\<close>, where \<open>m = (4/3) pi rho_s a^3\<close>.
\<close>

theorem size_distributions_unit_mass:
  assumes "sorted_wrt (<) a" and "\<forall>x \<in> set a. 0 < x" and "2 \<le> length a"
    and "rho_s \<noteq> 0" and "hd a \<le> a_max" and "sigma_a \<noteq> 0"
  shows "(\<exists>N. powerlaw_N_of_a a a_max q rho_s = Some N
              \<and> trapz (mul_arr N (grain_mass rho_s a)) a = 1)
       \<and> (\<exists>N. gaussian_N_of_a a a_mean sigma_a rho_s = Some N
              \<and> trapz (mul_arr N (grain_mass rho_s a)) a = 1)"
proof
  let ?w = "\<lambda>x. x powr (- q) * (if x \<le> a_max then 1 else 0)"
  have ne: "a \<noteq> []" using assms(3) by auto
  have "\<forall>x \<in> set a. 0 \<le> ?w x" by simp
  moreover have "0 < hd a" using assms(2) ne by simp
  then have "0 < ?w (hd a)" using assms(5) by simp
  ultimately have "trapz (mul_arr (map ?w a) (grain_mass rho_s a)) a \<noteq> 0"
    using mass_integral_nonzero [OF assms(1,3,2,4), of ?w] by blast
  then show "\<exists>N. powerlaw_N_of_a a a_max q rho_s = Some N
              \<and> trapz (mul_arr N (grain_mass rho_s a)) a = 1"
    unfolding powerlaw_N_of_a_def Let_def by (rule normalize_dist_unit)
next
  let ?w = "\<lambda>x. exp (- ((x - a_mean) ^ 2) / (2 * sigma_a ^ 2))"
  have "trapz (mul_arr (map ?w a) (grain_mass rho_s a)) a \<noteq> 0"
    using mass_integral_nonzero [OF assms(1,3,2,4), of ?w] by simp
  then show "\<exists>N. gaussian_N_of_a a a_mean sigma_a rho_s = Some N
              \<and> trapz (mul_arr N (grain_mass rho_s a)) a = 1"
    unfolding gaussian_N_of_a_def Let_def using assms(6)
    by (simp add: normalize_dist_unit)
qed

text \<open>
  C4 as stated fails when the cut-off lies below the grid: on the grid \<open>[1, 2]\<close> with
  \<open>a_max = 1/2\<close> the unnormalised distribution is zero everywhere, the normalising
  integral is \<open>0\<close>, and the returned array holds no finite number.
\<close>

theorem powerlaw_cutoff_below_grid_counterexample:
  "powerlaw_N_of_a [1, 2] (1 / 2) (7 / 2) 1 = None"
  by (simp add: powerlaw_N_of_a_def normalize_dist_def mul_arr_def grain_mass_def)

theorem size_distributions_unit_mass_witness:
  "(\<exists>N. powerlaw_N_of_a [1, 2] 2 (7 / 2) 1 = Some N
        \<and> trapz (mul_arr N (grain_mass 1 [1, 2])) [1, 2] = 1)
 \<and> (\<exists>N. gaussian_N_of_a [1, 2] 1 1 1 = Some N
        \<and> trapz (mul_arr N (grain_mass 1 [1, 2])) [1, 2] = 1)"
  using size_distributions_unit_mass [of "[1, 2]" 1 2 1 "7 / 2" 1] by simp

section \<open>\<^verbatim>\<open>calculate_mueller_matrix\<close>\<close>



text \<open>
  \<^verbatim>\<open>factor = (lam[None, :] / (2 * np.pi))**2 / m[:, None]\<close>, entry \<open>(i, j)\<close>. A zero
  mass makes the entry \<^verbatim>\<open>inf\<close> or \<^verbatim>\<open>nan\<close>, and every product with it as well: \<open>None\<close>.
\<close>

definition mueller_factor :: "real \<Rightarrow> real \<Rightarrow> real option" where
  "mueller_factor lam_j m_i =
     (if m_i = 0 then None else Some ((lam_j / (2 * pi)) ^ 2 / m_i))"

definition times_factor :: "real \<Rightarrow> real option \<Rightarrow> real option" where
  "times_factor S fac = map_option (\<lambda>f. S * f) fac"





lemma times_factor_finite:
  "m_i \<noteq> 0 \<Longrightarrow>
     times_factor S (mueller_factor lam_j m_i) = Some (S * ((lam_j / (2 * pi)) ^ 2 / m_i))"
  by (simp add: times_factor_def mueller_factor_def)



section \<open>\<^verbatim>\<open>class diel_mixed\<close>\<close>

text \<open>
  A constituent is an object with an \<^verbatim>\<open>nk\<close> method (a \<^verbatim>\<open>diel_const\<close> or one of its
  subclasses); the mixture only ever calls that method, so the model keeps the method.
  The attribute \<open>rule\<close> is a string that the code compares after \<^verbatim>\<open>lower()\<close> with
  \<^verbatim>\<open>'bruggeman'\<close> and \<^verbatim>\<open>'maxwell-garnett'\<close>: the model keeps which of the two it is, or
  that it is neither. The label \<open>material_str\<close> is left out.
\<close>

type_synonym nk_method = "real \<Rightarrow> error + (real \<times> real)"

datatype mixing_rule = Bruggeman | Maxwell_Garnett | Other_rule

record diel_mixed =
  constants :: "nk_method list"
  abundances :: "real list"
  rule :: mixing_rule
  mixed_extrapol :: bool

text \<open>
  \<^verbatim>\<open>diel_mixed.__init__\<close>: an unknown rule raises \<^verbatim>\<open>NameError\<close>; with Maxwell-Garnett
  the constructor reads \<open>constants[0]\<close> to print the host material.
\<close>

definition diel_mixed_init ::
  "nk_method list \<Rightarrow> real list \<Rightarrow> mixing_rule \<Rightarrow> bool \<Rightarrow> error + diel_mixed" where
  "diel_mixed_init cs ab r ex =
     (if r = Other_rule then Inl NameError_unknown_mixing_rule
      else if r = Maxwell_Garnett \<and> cs = [] then Inl IndexError
      else Inr \<lparr> constants = cs, abundances = ab, rule = r, mixed_extrapol = ex \<rparr>)"

text \<open>
  An elementwise operation of two one-dimensional arrays under numpy's broadcasting:
  equal lengths, or one operand of length one; anything else raises \<^verbatim>\<open>ValueError\<close>.
\<close>

definition broadcast2 :: "('a \<Rightarrow> 'b \<Rightarrow> 'c) \<Rightarrow> 'a list \<Rightarrow> 'b list \<Rightarrow> error + 'c list" where
  "broadcast2 f xs ys =
     (if length xs = length ys then Inr (map2 f xs ys)
      else if length xs = 1 then Inr (map (f (hd xs)) ys)
      else if length ys = 1 then Inr (map (\<lambda>x. f x (hd ys)) xs)
      else Inl ValueError)"

text \<open>\<^verbatim>\<open>eps = np.array([complex(*c.nk(l))**2 for c in self.constants])\<close>\<close>

fun eps_of :: "nk_method list \<Rightarrow> real \<Rightarrow> error + complex list" where
  "eps_of [] l = Inr []"
| "eps_of (c # cs) l =
     bindE (c l) (\<lambda>(n, k).
     bindE (eps_of cs l) (\<lambda>es.
     Inr ((Complex n k) ^ 2 # es)))"

text \<open>
  The Bruggeman function \<^verbatim>\<open>fct(x) = sum(abundances * ((eps - x) / (eps + 2 * x)))\<close> that
  is handed to the root finder. Where a denominator vanishes it has no value.
\<close>

definition fct :: "real list \<Rightarrow> complex list \<Rightarrow> complex \<Rightarrow> error + complex" where
  "fct ab eps x =
     (if \<exists>e \<in> set eps. e + 2 * x = 0 then Inl ZeroDivisionError
      else bindE (broadcast2 (\<lambda>a t. of_real a * t) ab (map (\<lambda>e. (e - x) / (e + 2 * x)) eps))
             (\<lambda>ts. Inr (sum_list ts)))"

text \<open>
  \<^verbatim>\<open>mpmath.findroot(fct, x0)\<close> is a library routine; the model takes it as a parameter
  that returns a complex number or raises.
\<close>

type_synonym root_finder = "(complex \<Rightarrow> error + complex) \<Rightarrow> complex \<Rightarrow> error + complex"

text \<open>
  The Maxwell-Garnett branch. The divisions are numpy array divisions: a zero
  denominator gives \<^verbatim>\<open>inf\<close> or \<^verbatim>\<open>nan\<close> without raising, and the permittivity is then
  not a finite number (\<open>None\<close>).
\<close>

definition maxwell_garnett :: "real list \<Rightarrow> complex list \<Rightarrow> error + complex option" where
  "maxwell_garnett ab eps =
     (case eps of
        [] \<Rightarrow> Inl IndexError
      | eps_m # eps_i \<Rightarrow>
          (let f_i = drop 1 ab;
               beta_i = map (\<lambda>e. 3 * eps_m / (e + 2 * eps_m)) eps_i;
               f = sum_list f_i
           in bindE (broadcast2 (\<lambda>a b. of_real a * b) f_i beta_i) (\<lambda>fb.
              bindE (broadcast2 (*) fb eps_i) (\<lambda>fbe.
              (let num = of_real (1 - f) * eps_m + sum_list fbe;
                   den = of_real (1 - f) + sum_list fb
               in Inr (if (\<exists>e \<in> set eps_i. e + 2 * eps_m = 0) \<or> den = 0 then None
                       else Some (num / den)))))))"

text \<open>
  The value stored in \<open>eps_mean[i]\<close> by one pass through the loop body for the
  wavelength \<open>l\<close>; \<open>old\<close> is the entry before the pass, which is what stays there when
  the rule is neither of the two.
\<close>

definition mix_eps ::
  "root_finder \<Rightarrow> diel_mixed \<Rightarrow> real \<Rightarrow> complex option \<Rightarrow> error + complex option" where
  "mix_eps findroot mix l old =
     bindE (eps_of (constants mix) l) (\<lambda>eps.
       case rule mix of
         Bruggeman \<Rightarrow>
           bindE (findroot (fct (abundances mix) eps) (Complex 0.5 0.5)) (\<lambda>r. Inr (Some r))
       | Maxwell_Garnett \<Rightarrow> maxwell_garnett (abundances mix) eps
       | Other_rule \<Rightarrow> Inr old)"

text \<open>
  \<^verbatim>\<open>eps_mean = np.sqrt(eps_mean)\<close> and
  \<^verbatim>\<open>np.array([eps_mean.real.squeeze(), eps_mean.imag.squeeze()])\<close>: the principal square
  root of every entry, returned as the row of real parts and the row of imaginary parts.
\<close>

type_synonym nk_arrays = "real option list \<times> real option list"

definition sqrt_parts :: "complex option list \<Rightarrow> nk_arrays" where
  "sqrt_parts eps_mean =
     (let r = map (map_option csqrt) eps_mean
      in (map (map_option Re) r, map (map_option Im) r))"

text \<open>
  \<^verbatim>\<open>for i, l in enumerate(l_arr)\<close>. The \<^verbatim>\<open>return\<close> statement stands inside the loop body,
  so the body runs for the first element only and the equation for a non-empty array
  does not recurse. On an empty array the loop body never runs and the function falls
  off its end, returning \<^verbatim>\<open>None\<close>.
\<close>

fun nk_loop ::
  "root_finder \<Rightarrow> diel_mixed \<Rightarrow> nat \<Rightarrow> real list \<Rightarrow> complex option list
     \<Rightarrow> error + nk_arrays option" where
  "nk_loop findroot mix i [] eps_mean = Inr None"
| "nk_loop findroot mix i (l # ls) eps_mean =
     bindE (mix_eps findroot mix l (eps_mean ! i)) (\<lambda>e.
       Inr (Some (sqrt_parts (eps_mean[i := e]))))"

text \<open>
  \<^verbatim>\<open>diel_mixed.nk(l)\<close> with \<open>l_arr = np.array(l, ndmin=1)\<close>. The buffer \<open>eps_mean\<close>
  comes from \<^verbatim>\<open>np.empty\<close>, whose contents are whatever the memory held: the parameter
  \<open>np_empty\<close> gives the entry at each index.
\<close>

definition diel_mixed_nk ::
  "root_finder \<Rightarrow> (nat \<Rightarrow> complex option) \<Rightarrow> diel_mixed \<Rightarrow> real list
     \<Rightarrow> error + nk_arrays option" where
  "diel_mixed_nk findroot np_empty mix l_arr =
     (let eps_mean = map np_empty [0..<length l_arr]
      in nk_loop findroot mix 0 l_arr eps_mean)"

section \<open>Properties of \<^verbatim>\<open>diel_mixed.nk\<close>\<close>



lemma maxwell_garnett_host_eq_inclusion:
  assumes "e \<noteq> 0"
  shows "maxwell_garnett [1 / 2, 1 / 2] [e, e] = Inr (Some e)"
proof -
  have "e + 2 * e \<noteq> 0" using assms by simp
  moreover have "3 * e / (e + 2 * e) = 1"
  proof -
    have "e + 2 * e = 3 * e" by simp
    then show ?thesis using assms by simp
  qed
  ultimately show ?thesis
    by (simp add: maxwell_garnett_def broadcast2_def Let_def field_simps)
qed



text \<open>A root finder that always fails, for evaluating the Maxwell-Garnett branch.\<close>

definition no_root_finder :: root_finder where
  "no_root_finder f x0 = Inl RootFinderError"

text \<open>
  The spectrum that \<^verbatim>\<open>diel_const([1, 2], [-1, -1], [1, 1])\<close> builds, the 50/50
  Maxwell-Garnett mixture of it with itself, and a fresh buffer full of \<^verbatim>\<open>nan\<close>.
\<close>

definition negative_n_table :: diel_const where
  "negative_n_table =
     \<lparr> f_l = [1, 2], f_n = [- 1, - 1], f_k = [1, 1],
       f_ll = map log10 [1, 2], f_ln = map log10 [- 1, - 1], f_lk = map log10 [1, 1],
       f_lmin = 1, f_lmax = 2, extrapol = False, has_negative_n = True,
       material_str = None \<rparr>"



lemma negative_n_table_init: "diel_const_init [1, 2] [- 1, - 1] [1, 1] = Inr negative_n_table"
  by (simp add: diel_const_init_def negative_n_table_def)




lemma fct_single_root:
  assumes "fct [1] [e] r = Inr 0"
  shows "r = e"
proof -
  from assms have ne: "e + 2 * r \<noteq> 0"
    by (auto simp: fct_def split: if_splits)
  with assms have "(e - r) / (e + 2 * r) = 0"
    by (simp add: fct_def broadcast2_def)
  with ne show ?thesis by simp
qed

text \<open>
  C6. For a Bruggeman mixture built from a single constituent with volume fraction 1,
  and a root finder whose answer for the Bruggeman function is a root of it, the effective
  permittivity is exactly \<open>eps_1 = (n_1 + i k_1)^2\<close> at the query wavelength; the only
  other outcome is the error raised by the root finder.
\<close>

theorem bruggeman_single_constituent:
  assumes "c l = Inr (n, k)"
    and "constants mix = [c]" and "abundances mix = [1]" and "rule mix = Bruggeman"
    and "\<forall>r. findroot (fct [1] [(Complex n k) ^ 2]) (Complex 0.5 0.5) = Inr r \<longrightarrow>
             fct [1] [(Complex n k) ^ 2] r = Inr 0"
  shows "(\<exists>e. findroot (fct [1] [(Complex n k) ^ 2]) (Complex 0.5 0.5) = Inl e
            \<and> mix_eps findroot mix l old = Inl e
            \<and> diel_mixed_nk findroot np_empty mix [l] = Inl e)
       \<or> (mix_eps findroot mix l old = Inr (Some ((Complex n k) ^ 2))
            \<and> diel_mixed_nk findroot np_empty mix [l] =
                Inr (Some ([Some (Re (csqrt ((Complex n k) ^ 2)))],
                           [Some (Im (csqrt ((Complex n k) ^ 2)))])))"
proof -
  let ?e = "(Complex n k) ^ 2"
  have eps: "eps_of (constants mix) l = Inr [?e]"
    unfolding assms(2) using assms(1) by simp
  have mix: "mix_eps findroot mix l old' =
               bindE (findroot (fct [1] [?e]) (Complex 0.5 0.5)) (\<lambda>r. Inr (Some r))" for old'
    unfolding mix_eps_def eps by (simp add: assms(3,4))
  show ?thesis
  proof (cases "findroot (fct [1] [?e]) (Complex 0.5 0.5)")
    case (Inl e)
    then have "mix_eps findroot mix l old' = Inl e" for old'
      by (simp add: mix)
    then have "mix_eps findroot mix l old = Inl e"
      and "diel_mixed_nk findroot np_empty mix [l] = Inl e"
      by (simp_all add: diel_mixed_nk_def)
    with Inl show ?thesis by blast
  next
    case (Inr r)
    with assms(5) have "fct [1] [?e] r = Inr 0" by blast
    then have "r = ?e" by (rule fct_single_root)
    with Inr have "mix_eps findroot mix l old' = Inr (Some ?e)" for old'
      by (simp add: mix)
    then have "mix_eps findroot mix l old = Inr (Some ?e)"
      and "diel_mixed_nk findroot np_empty mix [l] =
             Inr (Some ([Some (Re (csqrt ?e))], [Some (Im (csqrt ?e))]))"
      by (simp_all add: diel_mixed_nk_def sqrt_parts_def)
    then show ?thesis by blast
  qed
qed

text \<open>A root finder that tries the single candidate \<open>z\<close>.\<close>

definition probe_root_finder :: "complex \<Rightarrow> root_finder" where
  "probe_root_finder z f x0 = (if f z = Inr 0 then Inr z else Inl RootFinderError)"

lemma nk_flat_table: 
  assumes "diel_const_init [1, 2] [2, 2] [1, 1] = Inr d"
  shows "nk d 1 = Inr (2, 1)"
proof -
  from assms have flds: "f_ll d = [log10 1, log10 2]" "f_ln d = [log10 2, log10 2]"
    "f_lk d = [log10 1, log10 1]" "f_lmin d = 1" "f_lmax d = 2" "\<not> has_negative_n d"
    by (auto simp: diel_const_init_def)
  show ?thesis
    by (simp add: nk_def flds interp_def log10_def pow10_def)
qed

theorem bruggeman_single_constituent_witness:
  "(case diel_const_init [1, 2] [2, 2] [1, 1] of
      Inl e \<Rightarrow> False
    | Inr d \<Rightarrow>
        nk d 1 = Inr (2, 1)
      \<and> mix_eps (probe_root_finder (Complex 3 4))
            \<lparr> constants = [nk d], abundances = [1],
              rule = Bruggeman, mixed_extrapol = False \<rparr> 1 None
          = Inr (Some ((Complex 2 1) ^ 2)))"
proof -
  obtain d where d: "diel_const_init [1, 2] [2, 2] [1, 1] = Inr d"
    by (simp add: diel_const_init_def)
  have nk1: "nk d 1 = Inr (2, 1)" using d by (rule nk_flat_table)
  have contract: "\<forall>r. probe_root_finder (Complex 3 4) (fct [1] [(Complex 2 1) ^ 2])
                       (Complex 0.5 0.5) = Inr r \<longrightarrow>
                     fct [1] [(Complex 2 1) ^ 2] r = Inr 0"
    by (auto simp: probe_root_finder_def split: if_splits)
  have sq: "(Complex 2 1) ^ 2 = Complex 3 4"
    by (simp add: power2_eq_square complex_eq_iff)
  have found: "probe_root_finder (Complex 3 4) (fct [1] [(Complex 2 1) ^ 2]) (Complex 0.5 0.5)
                 = Inr (Complex 3 4)"
    by (simp add: probe_root_finder_def fct_def broadcast2_def sq complex_eq_iff)
  from bruggeman_single_constituent [where c = "nk d" and l = 1 and n = 2 and k = 1
      and findroot = "probe_root_finder (Complex 3 4)" and old = None
      and np_empty = "\<lambda>i. None"
      and mix = "\<lparr> constants = [nk d], abundances = [1],
              rule = Bruggeman, mixed_extrapol = False \<rparr>", OF nk1 _ _ _ contract]
  show ?thesis using d nk1 found by simp
qed

text \<open>
  C9. Called with an array \<open>l0, ls\<close> of wavelengths, \<^verbatim>\<open>diel_mixed.nk\<close> returns during the
  first pass through its loop: only entry 0 of the result comes from the mixing rule (at
  \<open>l0\<close>); every later entry is the square root of what \<^verbatim>\<open>np.empty\<close> left in the buffer,
  and the result is the same for every other array of that length that starts with
  \<open>l0\<close>, so nothing is derived from the later wavelengths.
\<close>

theorem diel_mixed_nk_returns_in_first_iteration:
  "diel_mixed_nk findroot np_empty mix (l0 # ls) =
     bindE (mix_eps findroot mix l0 (np_empty 0)) (\<lambda>e0.
       Inr (Some (sqrt_parts (e0 # map np_empty [1..<Suc (length ls)]))))
   \<and> (\<forall>ls'. length ls' = length ls \<longrightarrow>
         diel_mixed_nk findroot np_empty mix (l0 # ls') =
         diel_mixed_nk findroot np_empty mix (l0 # ls))"
proof -
  have upd: "(map np_empty [0..<Suc (length xs)])[0 := e] =
               e # map np_empty [1..<Suc (length xs)]" for xs :: "real list" and e
    by (simp add: upt_conv_Cons del: upt_Suc)
  have first: "(map np_empty [0..<Suc (length xs)]) ! 0 = np_empty 0" for xs :: "real list"
    by (simp add: upt_conv_Cons del: upt_Suc)
  have closed: "diel_mixed_nk findroot np_empty mix (l0 # xs) =
     bindE (mix_eps findroot mix l0 (np_empty 0)) (\<lambda>e0.
       Inr (Some (sqrt_parts (e0 # map np_empty [1..<Suc (length xs)]))))" for xs
    unfolding diel_mixed_nk_def Let_def length_Cons nk_loop.simps first upd ..
  show ?thesis
    by (simp only: closed) simp
qed

theorem diel_mixed_nk_returns_in_first_iteration_witness:
  "(case diel_const_init [1, 2] [2, 2] [1, 1] of
      Inl e \<Rightarrow> False
    | Inr d \<Rightarrow>
        nk d 1 = Inr (2, 1) \<and> nk d 5 = Inl NameError_outside_data_range
      \<and> diel_mixed_nk no_root_finder (\<lambda>i. Some 1)
            \<lparr> constants = [nk d, nk d], abundances = [1 / 2, 1 / 2],
              rule = Maxwell_Garnett, mixed_extrapol = False \<rparr> [1, 5]
          = Inr (Some ([Some 2, Some 1], [Some 1, Some 0])))"
proof -
  obtain d where d: "diel_const_init [1, 2] [2, 2] [1, 1] = Inr d"
    by (simp add: diel_const_init_def)
  have nk1: "nk d 1 = Inr (2, 1)" using d by (rule nk_flat_table)
  have nk5: "nk d 5 = Inl NameError_outside_data_range"
    using d by (auto simp: nk_def diel_const_init_def)
  have "Complex 2 1 \<noteq> 0" by (simp add: complex_eq_iff)
  then have ne: "(Complex 2 1) ^ 2 \<noteq> 0" by simp
  have sq: "csqrt ((Complex 2 1) ^ 2) = Complex 2 1"
    by (simp add: csqrt_square)
  have mix: "mix_eps no_root_finder
            \<lparr> constants = [nk d, nk d], abundances = [1 / 2, 1 / 2],
              rule = Maxwell_Garnett, mixed_extrapol = False \<rparr> 1 (Some 1)
          = Inr (Some ((Complex 2 1) ^ 2))"
    by (simp add: mix_eps_def nk1 maxwell_garnett_host_eq_inclusion [OF ne])
  from diel_mixed_nk_returns_in_first_iteration [of no_root_finder "\<lambda>i. Some 1"
      "\<lparr> constants = [nk d, nk d], abundances = [1 / 2, 1 / 2],
              rule = Maxwell_Garnett, mixed_extrapol = False \<rparr>" 1 "[5]"]
  have "diel_mixed_nk no_root_finder (\<lambda>i. Some 1)
            \<lparr> constants = [nk d, nk d], abundances = [1 / 2, 1 / 2],
              rule = Maxwell_Garnett, mixed_extrapol = False \<rparr> [1, 5]
          = Inr (Some (sqrt_parts [Some ((Complex 2 1) ^ 2), Some 1]))"
    by (simp add: mix)
  then show ?thesis using d nk1 nk5 by (simp add: sqrt_parts_def sq)
qed

section \<open>Extending a spectrum\<close>

text \<open>Calls of \<^verbatim>\<open>warnings.warn\<close> are collected in a list that the operation returns.\<close>

datatype warning = NegativeNWarning | LargeSizeParameterWarning

text \<open>
  \<^verbatim>\<open>np.linspace(start, stop, num)\<close> and \<^verbatim>\<open>np.logspace(start, stop, num)\<close>: \<open>num\<close> evenly
  spaced points from \<open>start\<close> to \<open>stop\<close>, both included; a negative \<open>num\<close> raises
  \<^verbatim>\<open>ValueError\<close>.
\<close>

definition linspace :: "real \<Rightarrow> real \<Rightarrow> int \<Rightarrow> error + real list" where
  "linspace start stop num =
     (if num < 0 then Inl ValueError
      else if num = 1 then Inr [start]
      else Inr (map (\<lambda>i. start + real i * ((stop - start) / real_of_int (num - 1)))
                  [0..<nat num]))"

















subsection \<open>Properties of the extension\<close>






















section \<open>\<^verbatim>\<open>get_mie_coefficients\<close>\<close>

text \<open>
  The Mie solver is the keyword argument \<open>bhmie_function\<close>, called as
  \<^verbatim>\<open>S1, S2, Qext, Qabs, Qsca, Qback, gsca = bhmie_function(x, complex(n, k), nang)\<close>: a
  parameter of the model that returns the seven results.
\<close>

record mie_result =
  mie_S1 :: "complex list"
  mie_S2 :: "complex list"
  Qext :: real
  Qabs :: real
  Qsca :: real
  Qback :: real
  gsca :: complex

type_synonym bhmie = "real \<Rightarrow> complex \<Rightarrow> int \<Rightarrow> mie_result"

text \<open>
  The result arrays \<open>q_abs\<close>, \<open>q_sca\<close>, \<open>g_sca\<close>, \<open>s_1\<close>, \<open>s_2\<close> that the loops fill
  in place, indexed by size and then by wavelength. (\<open>full_mask\<close> is written and never
  read; it is left out.)
\<close>

record mie_arrays =
  arr_q_abs :: "real list list"
  arr_q_sca :: "real list list"
  arr_g_sca :: "real list list"
  arr_s_1 :: "complex list list list"
  arr_s_2 :: "complex list list list"

text \<open>\<^verbatim>\<open>NMXX = 200000  # after how many terms to use extrapolation\<close>\<close>

definition NMXX :: int where
  "NMXX = 200000"

text \<open>\<^verbatim>\<open>.astype(int)\<close> truncates towards zero.\<close>

definition trunc_int :: "real \<Rightarrow> int" where
  "trunc_int x = (if 0 \<le> x then \<lfloor>x\<rfloor> else \<lceil>x\<rceil>)"

text \<open>
  One entry of \<^verbatim>\<open>X = 2. * np.pi / lam * A\<close>, and the recursion order of one size,
  \<^verbatim>\<open>nmx = np.maximum(Xstop, Y).astype(int) + 15\<close> with \<^verbatim>\<open>Y = abs(X * (n + k * 1j))\<close> and
  \<^verbatim>\<open>Xstop = X + 4. * X**.333333 + 2.0\<close>. The float power is \<open>powr\<close>, which is the
  source's power for \<open>X \<ge> 0\<close>.
\<close>

definition size_parameter :: "real \<Rightarrow> real \<Rightarrow> real" where
  "size_parameter lam a = 2 * pi / lam * a"

definition nmx_of :: "real \<Rightarrow> complex \<Rightarrow> int" where
  "nmx_of x m =
     (let Y = cmod (of_real x * m);
          Xstop = x + 4 * x powr (333333 / 1000000) + 2
      in trunc_int (max Xstop Y) + 15)"

text \<open>\<^verbatim>\<open>0.3 * X**2 / (1 + 0.3 * X**2)\<close> (Laor and Draine 1993, Eq. 8)\<close>

definition laor_draine_g :: "real \<Rightarrow> real" where
  "laor_draine_g x = 0.3 * x ^ 2 / (1 + 0.3 * x ^ 2)"

text \<open>
  \<open>X[mask]\<close>, an element assignment \<open>arr[i, j] = v\<close>, the slice assignment
  \<open>arr[start:, j] = values\<close> (row \<open>i\<close> receives \<open>f i\<close>), and the assignment of a
  one-dimensional array to \<open>s_1[ia, ilam, :]\<close>, which broadcasts a single element and
  otherwise needs the right length.
\<close>

definition masked :: "'a list \<Rightarrow> bool list \<Rightarrow> 'a list" where
  "masked xs msk = map fst (filter snd (zip xs msk))"

definition set2 :: "'a list list \<Rightarrow> nat \<Rightarrow> nat \<Rightarrow> 'a \<Rightarrow> 'a list list" where
  "set2 arr i j v = arr[i := (arr ! i)[j := v]]"

definition assign_col_from :: "'a list list \<Rightarrow> nat \<Rightarrow> nat \<Rightarrow> (nat \<Rightarrow> 'a) \<Rightarrow> 'a list list" where
  "assign_col_from arr start j f =
     map (\<lambda>i. if start \<le> i then (arr ! i)[j := f i] else arr ! i) [0..<length arr]"

definition assign_angles :: "nat \<Rightarrow> complex list \<Rightarrow> error + complex list" where
  "assign_angles nangles S =
     (if length S = nangles then Inr S
      else if length S = 1 then Inr (replicate nangles (hd S))
      else Inl ValueError)"

text \<open>The body of the loop over the sizes that are computed directly.\<close>

definition store_result :: "mie_result \<Rightarrow> int \<Rightarrow> nat \<Rightarrow> nat \<Rightarrow> mie_arrays \<Rightarrow> error + mie_arrays" where
  "store_result r nang ia ilam st =
     (if \<not> (ia < length (arr_q_abs st) \<and> ilam < length (arr_q_abs st ! ia)) then Inl IndexError
      else bindE (assign_angles (nat (2 * nang - 1)) (mie_S1 r)) (\<lambda>row1.
           bindE (assign_angles (nat (2 * nang - 1)) (mie_S2 r)) (\<lambda>row2.
           Inr (st \<lparr> arr_q_abs := set2 (arr_q_abs st) ia ilam (Qabs r),
                      arr_q_sca := set2 (arr_q_sca st) ia ilam (Qsca r),
                      arr_g_sca := set2 (arr_g_sca st) ia ilam (Re (gsca r)),
                      arr_s_1 := set2 (arr_s_1 st) ia ilam row1,
                      arr_s_2 := set2 (arr_s_2 st) ia ilam row2 \<rparr>))))"

fun size_loop ::
  "bhmie \<Rightarrow> complex \<Rightarrow> int \<Rightarrow> nat \<Rightarrow> nat \<Rightarrow> real list \<Rightarrow> mie_arrays \<Rightarrow> error + mie_arrays" where
  "size_loop bhmie_function m nang ilam ia [] st = Inr st"
| "size_loop bhmie_function m nang ilam ia (x # xs) st =
     bindE (store_result (bhmie_function x m nang) nang ia ilam st) (\<lambda>st'.
       size_loop bhmie_function m nang ilam (Suc ia) xs st')"

text \<open>
  The three slice assignments after the size loop, with \<open>ia\<close> the last index the loop
  reached: \<^verbatim>\<open>q_abs[ia + 1:, ilam] = q_abs[ia, ilam]\<close>, the same for \<open>q_sca\<close>, and
  \<^verbatim>\<open>g_sca[ia + 1:, ilam] = 0.3 * X[ia + 1:]**2 / (1 + 0.3 * X[ia + 1:]**2)\<close>.
\<close>

definition extrapolate_large :: "real list \<Rightarrow> nat \<Rightarrow> nat \<Rightarrow> mie_arrays \<Rightarrow> mie_arrays" where
  "extrapolate_large X ia ilam st =
     st \<lparr> arr_q_abs := assign_col_from (arr_q_abs st) (Suc ia) ilam (\<lambda>i. arr_q_abs st ! ia ! ilam),
          arr_q_sca := assign_col_from (arr_q_sca st) (Suc ia) ilam (\<lambda>i. arr_q_sca st ! ia ! ilam),
          arr_g_sca := assign_col_from (arr_g_sca st) (Suc ia) ilam (\<lambda>i. laor_draine_g (X ! i)) \<rparr>"

text \<open>
  \<^verbatim>\<open>scipy.optimize.fsolve(f, x0)\<close> is a library routine and a parameter of the model. It
  is called only when no size is below the threshold, to find the size parameter at
  which the term count reaches \<open>NMXX\<close>.
\<close>

type_synonym solver = "(real \<Rightarrow> real) \<Rightarrow> real \<Rightarrow> real"

text \<open>
  \<open>X_cut\<close>: the size parameters that are computed directly. Without extrapolation the
  mask is set to \<open>True\<close> everywhere.
\<close>

definition select_X_cut :: "real list \<Rightarrow> complex \<Rightarrow> solver \<Rightarrow> bool \<Rightarrow> real list" where
  "select_X_cut X m fsolve extrapolate_large_grains =
     (let nmx = map (\<lambda>x. nmx_of x m) X;
          msk = (if extrapolate_large_grains then map (\<lambda>v. v < NMXX) nmx
                 else map (\<lambda>v. True) nmx);
          X_cut = masked X msk
      in if X_cut = []
         then [fsolve (\<lambda>x. x + 4 * x powr (33333 / 100000) + 2 - real_of_int NMXX)
                 (real_of_int NMXX)]
         else X_cut)"

text \<open>The body of the wavelength loop, and the loop.\<close>

definition wavelength_step ::
  "real list \<Rightarrow> nk_method \<Rightarrow> bhmie \<Rightarrow> solver \<Rightarrow> int \<Rightarrow> bool \<Rightarrow> nat \<Rightarrow> real \<Rightarrow> mie_arrays
     \<Rightarrow> error + mie_arrays" where
  "wavelength_step A nk_fun bhmie_function fsolve nang extrapolate_large_grains ilam lam st =
     bindE (nk_fun lam) (\<lambda>(n, k).
       (let X = map (size_parameter lam) A;
            X_cut = select_X_cut X (Complex n k) fsolve extrapolate_large_grains
        in bindE (size_loop bhmie_function (Complex n k) nang ilam 0 X_cut st) (\<lambda>st'.
           Inr (extrapolate_large X (length X_cut - 1) ilam st'))))"

fun wavelength_loop ::
  "real list \<Rightarrow> nk_method \<Rightarrow> bhmie \<Rightarrow> solver \<Rightarrow> int \<Rightarrow> bool \<Rightarrow> nat \<Rightarrow> real list \<Rightarrow> mie_arrays
     \<Rightarrow> error + mie_arrays" where
  "wavelength_loop A nk_fun bh fsolve nang ex ilam [] st = Inr st"
| "wavelength_loop A nk_fun bh fsolve nang ex ilam (lam # lams) st =
     bindE (wavelength_step A nk_fun bh fsolve nang ex ilam lam st) (\<lambda>st'.
       wavelength_loop A nk_fun bh fsolve nang ex (Suc ilam) lams st')"

text \<open>The returned dictionary (without its \<open>info\<close> text) and the warning issued first.\<close>

record mie_package =
  p_q_abs :: "real list list"
  p_q_sca :: "real list list"
  p_g :: "real list list"
  p_S1 :: "complex list list list"
  p_S2 :: "complex list list list"
  p_theta :: "real list"

definition large_size_warning :: "real list \<Rightarrow> real list \<Rightarrow> bool \<Rightarrow> warning list" where
  "large_size_warning A LAM extrapolate_large_grains =
     (let xmax = 2 * pi / Min (set LAM) * Max (set A);
          xstop = xmax + 4 * xmax powr (333333 / 1000000) + 2;
          nmx = xstop + 15
      in if nmx > 200000 \<and> \<not> extrapolate_large_grains then [LargeSizeParameterWarning] else [])"

definition get_mie_coefficients ::
  "real list \<Rightarrow> real list \<Rightarrow> nk_method \<Rightarrow> bhmie \<Rightarrow> solver \<Rightarrow> int \<Rightarrow> bool
     \<Rightarrow> error + (mie_package \<times> warning list)" where
  "get_mie_coefficients A LAM nk_fun bhmie_function fsolve nang extrapolate_large_grains =
     (if 2 * nang - 1 < 0 then Inl ValueError
      else if LAM = [] \<or> A = [] then Inl ValueError
      else
        (let nangles = nat (2 * nang - 1);
             zeros = replicate (length A) (replicate (length LAM) 0);
             st0 = \<lparr> arr_q_abs = zeros, arr_q_sca = zeros, arr_g_sca = zeros,
                     arr_s_1 = replicate (length A) (replicate (length LAM) (replicate nangles 0)),
                     arr_s_2 = replicate (length A) (replicate (length LAM) (replicate nangles 0)) \<rparr>;
             w = large_size_warning A LAM extrapolate_large_grains
         in bindE (wavelength_loop A nk_fun bhmie_function fsolve nang
                     extrapolate_large_grains 0 LAM st0) (\<lambda>st.
            bindE (linspace 0 180 (2 * nang - 1)) (\<lambda>theta.
            Inr (\<lparr> p_q_abs = arr_q_abs st, p_q_sca = arr_q_sca st, p_g = arr_g_sca st,
                    p_S1 = arr_s_1 st, p_S2 = arr_s_2 st, p_theta = theta \<rparr>, w)))))"

subsection \<open>What the sweep stores\<close>

text \<open>
  The arrays keep their shape through every assignment, each pass through the
  wavelength loop writes one column, and the column it writes is described by
  \<open>column_spec\<close> below.
\<close>

definition shape2 :: "nat \<Rightarrow> nat \<Rightarrow> 'a list list \<Rightarrow> bool" where
  "shape2 n0 n1 arr = (length arr = n0 \<and> (\<forall>row \<in> set arr. length row = n1))"


































text \<open>
  For evaluation: the vacuum model \<open>(n, k) = (1, 0)\<close>, a solver that returns its size
  parameter as \<open>Q_abs\<close>, and a root finder that returns its starting value.
\<close>

definition vacuum_nk :: nk_method where
  "vacuum_nk l = Inr (1, 0)"






subsection \<open>The exponent of the term count\<close>














section \<open>\<^verbatim>\<open>get_kappa_from_q\<close> and \<^verbatim>\<open>get_size_averaged_opacity\<close>\<close>

text \<open>
  \<^verbatim>\<open>kappa = q * np.tile(np.pi * a**2 / m, [n_lam, 1]).transpose()\<close> for \<open>q\<close> of shape
  \<open>(len(a), n_lam)\<close>; other shapes are outside the model. A zero mass makes the factor
  \<^verbatim>\<open>inf\<close> or \<^verbatim>\<open>nan\<close> (\<open>None\<close>).
\<close>

definition kappa_factor :: "real \<Rightarrow> real \<Rightarrow> real option" where
  "kappa_factor a_i m_i = (if m_i = 0 then None else Some (pi * a_i ^ 2 / m_i))"

definition second_dim :: "'a list list \<Rightarrow> nat" where
  "second_dim q = (case q of [] \<Rightarrow> 0 | row # rows \<Rightarrow> length row)"

definition get_kappa_from_q ::
  "real list \<Rightarrow> real list \<Rightarrow> real list list \<Rightarrow> real list list
     \<Rightarrow> error + (real option list list \<times> real option list list)" where
  "get_kappa_from_q a m q_abs q_sca =
     (let n_lam = second_dim q_abs
      in if shape2 (length a) n_lam q_abs \<and> shape2 (length a) n_lam q_sca
            \<and> length m = length a
         then Inr (map (\<lambda>i. map (\<lambda>q. times_factor q (kappa_factor (a ! i) (m ! i))) (q_abs ! i))
                     [0..<length a],
                   map (\<lambda>i. map (\<lambda>q. times_factor q (kappa_factor (a ! i) (m ! i))) (q_sca ! i))
                     [0..<length a])
         else Inl ShapeOutsideModel)"

text \<open>
  \<^verbatim>\<open>sum(np.transpose(kappa[:, i]) * sig, 0)\<close>; the sum is not a finite number when one
  of its terms is not, or when \<open>sig\<close> was divided by a zero sum.
\<close>

definition sum_options :: "real option list \<Rightarrow> real option" where
  "sum_options xs = (if None \<in> set xs then None else Some (sum_list (map the xs)))"

definition weighted_column :: "real option list list \<Rightarrow> real list option \<Rightarrow> nat \<Rightarrow> real option" where
  "weighted_column kappa sig i =
     (case sig of
        None \<Rightarrow> None
      | Some s \<Rightarrow> sum_options (map2 (\<lambda>row w. map_option (\<lambda>v. v * w) (row ! i)) kappa s))"

text \<open>
  \<^verbatim>\<open>get_size_averaged_opacity(a, lam, n, rho_s, diel_const=None, q_abs=None, q_sca=None,
  k_abs=None, k_sca=None)\<close>. The first statement is
  \<^verbatim>\<open>assert (diel_const is not None)\<close>, so the test for all three inputs missing that
  follows it can never fire. \<open>kappa_abs\<close> and \<open>kappa_sca\<close> are assigned in the middle
  branch only: after the other two branches the averaging loop reads an unbound local
  variable. The call of \<^verbatim>\<open>get_mie_coefficients\<close> uses its defaults \<open>nang = 3\<close> and no
  extrapolation.
\<close>

definition get_size_averaged_opacity ::
  "bhmie \<Rightarrow> solver \<Rightarrow> real list \<Rightarrow> real list \<Rightarrow> real list \<Rightarrow> real \<Rightarrow> nk_method option
     \<Rightarrow> real list list option \<Rightarrow> real list list option
     \<Rightarrow> real list list option \<Rightarrow> real list list option
     \<Rightarrow> error + (real option list \<times> real option list)" where
  "get_size_averaged_opacity bhmie_function fsolve a lam n rho_s diel_const q_abs q_sca k_abs k_sca =
     (case diel_const of
        None \<Rightarrow> Inl AssertionError
      | Some dc \<Rightarrow>
          (let m = grain_mass rho_s a
           in bindE (broadcast2 (*) n m) (\<lambda>nm.
              bindE (broadcast2 (*) nm a) (\<lambda>sig0.
              (let sig = (if sum_list sig0 = 0 then None
                          else Some (map (\<lambda>s. s / sum_list sig0) sig0))
               in if (q_abs = None \<or> q_sca = None) \<and> (k_abs = None \<or> k_sca = None)
                  then bindE (get_mie_coefficients a lam dc bhmie_function fsolve 3 False)
                         (\<lambda>package. Inl UnboundLocalError)
                  else if k_abs = None \<or> k_sca = None
                  then bindE (get_kappa_from_q a m (the q_abs) (the q_sca)) (\<lambda>(kappa_abs, kappa_sca).
                         if length sig0 \<noteq> length a then Inl ShapeOutsideModel
                         else if second_dim (the q_abs) < length lam then Inl IndexError
                         else Inr (map (weighted_column kappa_abs sig) [0..<length lam],
                                   map (weighted_column kappa_sca sig) [0..<length lam]))
                  else if lam = [] then Inr ([], [])
                  else Inl UnboundLocalError)))))"

text \<open>
  C10. \<^verbatim>\<open>get_size_averaged_opacity\<close> raises \<^verbatim>\<open>AssertionError\<close> whenever its \<open>diel_const\<close>
  keyword is \<^verbatim>\<open>None\<close>, whatever \<open>q_abs\<close>, \<open>q_sca\<close>, \<open>k_abs\<close>, \<open>k_sca\<close> and the other
  arguments are: no call without a dielectric-constants object succeeds.
\<close>

theorem size_average_requires_diel_const:
  "get_size_averaged_opacity bhmie_function fsolve a lam n rho_s None q_abs q_sca k_abs k_sca
     = Inl AssertionError"
  by (simp add: get_size_averaged_opacity_def)

text \<open>With a dielectric model and precomputed efficiencies the call does succeed.\<close>

lemma size_average_with_q_returns:
  "get_size_averaged_opacity bhmie_function fsolve [1] [1] [1] 1 (Some vacuum_nk)
         (Some [[2]]) (Some [[3]]) None None = Inr ([Some (3 / 2)], [Some (9 / 4)])"
  by (simp add: get_size_averaged_opacity_def broadcast2_def grain_mass_def get_kappa_from_q_def
      second_dim_def shape2_def Let_def weighted_column_def sum_options_def times_factor_def
      kappa_factor_def)

end
